theory Spec2Isabelle
  imports Main "HOL-Library.Word"
begin

section \<open>InterfaceController: per-interface kernel configuration\<close>

text \<open>
  A shallow embedding of \<^verbatim>\<open>server/InterfaceController.cpp\<close>. A C string is a
  \<^typ>\<open>string\<close>: the bytes before the terminating NUL. A C \<^verbatim>\<open>int\<close> that is only
  tested, returned or printed is an \<^typ>\<open>int\<close>; the one arithmetic operation of the
  file, a negation, wraps explicitly. Everything outside the process (the virtual file
  system, the address primitive, the vendor helper, the log) is a field of the record
  \<open>world\<close>, and every call that leaves the process appends an \<open>event\<close> to its trace.
\<close>

subsection \<open>The C library functions the file calls\<close>

text \<open>\<^verbatim>\<open>strcmp\<close>: byte-wise comparison; only the sign of the result is specified.\<close>

fun strcmp :: "string \<Rightarrow> string \<Rightarrow> int" where
  "strcmp [] [] = 0"
| "strcmp [] (b # bs) = - 1"
| "strcmp (a # as) [] = 1"
| "strcmp (a # as) (b # bs) =
     (if a = b then strcmp as bs
      else if (of_char a :: nat) < of_char b then - 1 else 1)"

text \<open>
  \<^verbatim>\<open>strchr\<close>: the suffix that starts at the first occurrence of the byte, or
  \<open>None\<close> for the null pointer. Searching for NUL finds the terminator.
\<close>

fun strchr :: "string \<Rightarrow> char \<Rightarrow> string option" where
  "strchr [] c = (if c = CHR 0x00 then Some [] else None)"
| "strchr (a # as) c = (if a = c then Some (a # as) else strchr as c)"

text \<open>Decimal rendering, as \<^verbatim>\<open>std::to_string(int)\<close>, \<^verbatim>\<open>%d\<close> and \<^verbatim>\<open>%u\<close> print it.\<close>

definition digit_char :: "nat \<Rightarrow> char" where
  "digit_char d = ''0123456789'' ! d"

function dec_nat :: "nat \<Rightarrow> string" where
  "dec_nat n = (if n < 10 then [digit_char n] else dec_nat (n div 10) @ [digit_char (n mod 10)])"
  by pat_completeness auto
termination
  by (relation "measure (\<lambda>n. n)") auto

declare dec_nat.simps [simp del]

definition to_string :: "int \<Rightarrow> string" where
  "to_string i = (if i < 0 then CHR ''-'' # dec_nat (nat (- i)) else dec_nat (nat i))"

text \<open>The value of a C \<^verbatim>\<open>int\<close> expression, wrapped to 32 bits in two's complement.\<close>

definition int32 :: "int \<Rightarrow> int" where
  "int32 i = (i + 2147483648) mod 4294967296 - 2147483648"

text \<open>The \<^verbatim>\<open>errno\<close> values of the platform (Linux).\<close>

definition ENOENT :: int where "ENOENT = 2"
definition EINVAL :: int where "EINVAL = 22"
definition EAFNOSUPPORT :: int where "EAFNOSUPPORT = 97"

subsection \<open>Constants of the file\<close>

definition ipv6_proc_path :: string where "ipv6_proc_path = ''/proc/sys/net/ipv6/conf''"
definition ipv4_neigh_conf_dir :: string where "ipv4_neigh_conf_dir = ''/proc/sys/net/ipv4/neigh''"
definition ipv6_neigh_conf_dir :: string where "ipv6_neigh_conf_dir = ''/proc/sys/net/ipv6/neigh''"
definition proc_net_path :: string where "proc_net_path = ''/proc/sys/net''"
definition sys_net_path :: string where "sys_net_path = ''/sys/class/net''"
definition wl_util_path :: string where "wl_util_path = ''/vendor/xbin/wlutil''"

definition kRouteInfoMinPrefixLen :: int where "kRouteInfoMinPrefixLen = 48"
definition kRouteInfoMaxPrefixLen :: int where "kRouteInfoMaxPrefixLen = 64"

subsection \<open>Path safety\<close>

definition isNormalPathComponent :: "string \<Rightarrow> bool" where
  "isNormalPathComponent component \<longleftrightarrow>
     strcmp component ''.'' \<noteq> 0 \<and>
     strcmp component ''..'' \<noteq> 0 \<and>
     strchr component CHR ''/'' = None"

definition isAddressFamilyPathComponent :: "string \<Rightarrow> bool" where
  "isAddressFamilyPathComponent component \<longleftrightarrow>
     strcmp component ''ipv4'' = 0 \<or> strcmp component ''ipv6'' = 0"

definition isInterfaceName :: "string \<Rightarrow> bool" where
  "isInterfaceName name \<longleftrightarrow>
     isNormalPathComponent name \<and>
     strcmp name ''default'' \<noteq> 0 \<and>
     strcmp name ''all'' \<noteq> 0"

subsection \<open>The world outside the process\<close>

text \<open>
  What the file consumes and does not implement: the file system under \<^verbatim>\<open>/proc\<close>
  and \<^verbatim>\<open>/sys\<close>, the address primitive of \<^verbatim>\<open>netutils\<close>, the vendor helper and the
  log. The answers of the outside are fields of the world: whether a node takes a value,
  what a directory lists, what the helper returns. The process changes only the file
  contents, \<^verbatim>\<open>errno\<close> and the trace.
\<close>

datatype dtype = DT_UNKNOWN | DT_DIR | DT_REG | DT_LNK

record dirent =
  d_type :: dtype
  d_name :: string

datatype event =
    Write string string bool
  | Read string bool
  | OpenDir string bool
  | Access string bool
  | ForkExecvp "string list" int
  | IfcAddAddress string string int
  | IfcDelAddress string string int
  | LogCantList string int
  | LogNdOffload bool string int int

record world =
  files :: "string \<rightharpoonup> string"
  write_error :: "string \<Rightarrow> string \<Rightarrow> int option"
  path_error :: "string \<Rightarrow> int"
  dirs :: "string \<rightharpoonup> dirent list"
  executable :: "string \<Rightarrow> bool"
  exec_status :: "string list \<Rightarrow> int"
  ifc_add_result :: "string \<Rightarrow> string \<Rightarrow> int \<Rightarrow> int"
  ifc_del_result :: "string \<Rightarrow> string \<Rightarrow> int \<Rightarrow> int"
  errno :: int
  trace :: "event list"

definition emit :: "event \<Rightarrow> world \<Rightarrow> world" where
  "emit e w = w\<lparr>trace := trace w @ [e]\<rparr>"

text \<open>
  \<^verbatim>\<open>android::base::WriteStringToFile(content, path)\<close>: the node at \<open>path\<close> takes
  \<open>content\<close>, or the write fails with the error \<open>write_error\<close> gives for the pair.
\<close>

definition WriteStringToFile :: "string \<Rightarrow> string \<Rightarrow> world \<Rightarrow> bool \<times> world" where
  "WriteStringToFile content path w =
     (case write_error w path content of
        None \<Rightarrow> (True, emit (Write path content True) (w\<lparr>files := (files w)(path \<mapsto> content)\<rparr>))
      | Some e \<Rightarrow> (False, emit (Write path content False) (w\<lparr>errno := e\<rparr>)))"

text \<open>\<^verbatim>\<open>android::base::ReadFileToString(path, &content)\<close>.\<close>

definition ReadFileToString :: "string \<Rightarrow> world \<Rightarrow> string option \<times> world" where
  "ReadFileToString path w =
     (case files w path of
        Some content \<Rightarrow> (Some content, emit (Read path True) w)
      | None \<Rightarrow> (None, emit (Read path False) (w\<lparr>errno := path_error w path\<rparr>)))"

text \<open>
  \<^verbatim>\<open>opendir\<close> and the \<^verbatim>\<open>readdir\<close> calls that follow: the stream is the list of
  entries the directory has when it is opened (\<^verbatim>\<open>.\<close> and \<^verbatim>\<open>..\<close> among them when
  the world lists them).
\<close>

definition opendir :: "string \<Rightarrow> world \<Rightarrow> dirent list option \<times> world" where
  "opendir dirname w =
     (case dirs w dirname of
        Some ents \<Rightarrow> (Some ents, emit (OpenDir dirname True) w)
      | None \<Rightarrow> (None, emit (OpenDir dirname False) (w\<lparr>errno := path_error w dirname\<rparr>)))"

text \<open>\<^verbatim>\<open>access(path, X_OK)\<close>: 0 when the file can be executed, else -1.\<close>

definition access_X_OK :: "string \<Rightarrow> world \<Rightarrow> int \<times> world" where
  "access_X_OK path w =
     (if executable w path then (0, emit (Access path True) w)
      else (- 1, emit (Access path False) (w\<lparr>errno := path_error w path\<rparr>)))"

definition android_fork_execvp :: "string list \<Rightarrow> world \<Rightarrow> int \<times> world" where
  "android_fork_execvp argv w = (exec_status w argv, emit (ForkExecvp argv (exec_status w argv)) w)"

definition ifc_add_address :: "string \<Rightarrow> string \<Rightarrow> int \<Rightarrow> world \<Rightarrow> int \<times> world" where
  "ifc_add_address name address prefixlen w =
     (ifc_add_result w name address prefixlen, emit (IfcAddAddress name address prefixlen) w)"

definition ifc_del_address :: "string \<Rightarrow> string \<Rightarrow> int \<Rightarrow> world \<Rightarrow> int \<times> world" where
  "ifc_del_address name address prefixlen w =
     (ifc_del_result w name address prefixlen, emit (IfcDelAddress name address prefixlen) w)"

subsection \<open>Writing one value, and one value on every interface\<close>

text \<open>\<^verbatim>\<open>StringPrintf("%s/%s/%s", dirname, subdirname, basename)\<close>.\<close>

definition path3 :: "string \<Rightarrow> string \<Rightarrow> string \<Rightarrow> string" where
  "path3 dirname subdirname basename = dirname @ ''/'' @ subdirname @ ''/'' @ basename"

definition writeValueToPath :: "string \<Rightarrow> string \<Rightarrow> string \<Rightarrow> string \<Rightarrow> world \<Rightarrow> int \<times> world" where
  "writeValueToPath dirname subdirname basename val w =
     (let path = path3 dirname subdirname basename;
          (ok, w1) = WriteStringToFile val path w
      in (if ok then 0 else - 1, w1))"

text \<open>The \<^verbatim>\<open>while (true)\<close> loop of \<^verbatim>\<open>forEachInterface\<close> over the open stream.\<close>

fun readdir_loop ::
  "string \<Rightarrow> (string \<Rightarrow> string \<Rightarrow> world \<Rightarrow> world) \<Rightarrow> dirent list \<Rightarrow> world \<Rightarrow> world" where
  "readdir_loop dirname fn [] w = w"
| "readdir_loop dirname fn (ent # rest) w =
     (if d_type ent \<noteq> DT_DIR \<or> \<not> isInterfaceName (d_name ent)
      then readdir_loop dirname fn rest w
      else readdir_loop dirname fn rest (fn dirname (d_name ent) w))"

definition forEachInterface ::
  "string \<Rightarrow> (string \<Rightarrow> string \<Rightarrow> world \<Rightarrow> world) \<Rightarrow> world \<Rightarrow> world" where
  "forEachInterface dirname fn w =
     (let w1 = fn dirname ''default'' w;
          (dir, w2) = opendir dirname w1
      in case dir of
           None \<Rightarrow> emit (LogCantList dirname (errno w2)) w2
         | Some ents \<Rightarrow> readdir_loop dirname fn ents w2)"

definition setOnAllInterfaces :: "string \<Rightarrow> string \<Rightarrow> string \<Rightarrow> world \<Rightarrow> world" where
  "setOnAllInterfaces dirname basename val =
     forEachInterface dirname
       (\<lambda>path iface w. snd (writeValueToPath path iface basename val w))"

definition setIPv6UseOutgoingInterfaceAddrsOnly :: "string \<Rightarrow> world \<Rightarrow> world" where
  "setIPv6UseOutgoingInterfaceAddrsOnly val =
     setOnAllInterfaces ipv6_proc_path ''use_oif_addrs_only'' val"

subsection \<open>The checked path of the named-parameter accessor\<close>

definition getParameterPathname ::
  "string \<Rightarrow> string \<Rightarrow> string \<Rightarrow> string \<Rightarrow> world \<Rightarrow> string \<times> world" where
  "getParameterPathname family which interface parameter w =
     (if \<not> isAddressFamilyPathComponent family then ([], w\<lparr>errno := EAFNOSUPPORT\<rparr>)
      else if \<not> isNormalPathComponent which \<or>
              \<not> isInterfaceName interface \<or>
              \<not> isNormalPathComponent parameter then ([], w\<lparr>errno := EINVAL\<rparr>)
      else (proc_net_path @ ''/'' @ family @ ''/'' @ which @ ''/'' @ interface @ ''/'' @ parameter, w))"

subsection \<open>The route-information-option pair\<close>

text \<open>The lambda of \<^verbatim>\<open>setAcceptIPv6RIO\<close>, which captures \<open>min\<close> and \<open>max\<close>.\<close>

definition setAcceptIPv6RIO_fn :: "int \<Rightarrow> int \<Rightarrow> string \<Rightarrow> string \<Rightarrow> world \<Rightarrow> world" where
  "setAcceptIPv6RIO_fn mn mx prefix iface w =
     (let (rv, w1) = writeValueToPath prefix iface ''accept_ra_rt_info_min_plen'' (to_string mn) w
      in if rv \<noteq> 0 then w1
         else snd (writeValueToPath prefix iface ''accept_ra_rt_info_max_plen'' (to_string mx) w1))"

definition setAcceptIPv6RIO :: "int \<Rightarrow> int \<Rightarrow> world \<Rightarrow> world" where
  "setAcceptIPv6RIO mn mx = forEachInterface ipv6_proc_path (setAcceptIPv6RIO_fn mn mx)"

subsection \<open>The public operations\<close>

text \<open>
  \<^verbatim>\<open>isIfaceName\<close> is declared outside this file; the operations that call it take
  it as their first argument, so what is proved of them holds for every such check.
  A property that depends on which names the check accepts is stated with
  \<open>isIfaceName_spec\<close>, defined after the operations.
  \<^verbatim>\<open>RouteController::ROUTE_TABLE_OFFSET_FROM_INDEX\<close>, declared in
  \<^verbatim>\<open>RouteController.h\<close>, is an argument of \<open>initializeAll\<close> in the same way.
\<close>

definition setAcceptRA :: "string \<Rightarrow> world \<Rightarrow> world" where
  "setAcceptRA val = setOnAllInterfaces ipv6_proc_path ''accept_ra'' val"

definition setAcceptRARouteTable :: "int \<Rightarrow> world \<Rightarrow> world" where
  "setAcceptRARouteTable tableOrOffset =
     setOnAllInterfaces ipv6_proc_path ''accept_ra_rt_table'' (to_string tableOrOffset)"

definition setBaseReachableTimeMs :: "32 word \<Rightarrow> world \<Rightarrow> world" where
  "setBaseReachableTimeMs millis w =
     (let val = dec_nat (unat millis);
          w1 = setOnAllInterfaces ipv4_neigh_conf_dir ''base_reachable_time_ms'' val w
      in setOnAllInterfaces ipv6_neigh_conf_dir ''base_reachable_time_ms'' val w1)"

definition setIPv6OptimisticMode :: "string \<Rightarrow> world \<Rightarrow> world" where
  "setIPv6OptimisticMode val w =
     (let w1 = setOnAllInterfaces ipv6_proc_path ''optimistic_dad'' val w
      in setOnAllInterfaces ipv6_proc_path ''use_optimistic'' val w1)"

definition initializeAll :: "int \<Rightarrow> world \<Rightarrow> world" where
  "initializeAll ROUTE_TABLE_OFFSET_FROM_INDEX w =
     (let w1 = setAcceptRA ''2'' w;
          w2 = setAcceptIPv6RIO kRouteInfoMinPrefixLen kRouteInfoMaxPrefixLen w1;
          w3 = setAcceptRARouteTable (int32 (- ROUTE_TABLE_OFFSET_FROM_INDEX)) w2;
          w4 = setIPv6OptimisticMode ''1'' w3;
          w5 = setBaseReachableTimeMs (word_of_int (int32 (15 * 1000))) w4
      in setIPv6UseOutgoingInterfaceAddrsOnly ''1'' w5)"

definition setEnableIPv6 :: "(string \<Rightarrow> bool) \<Rightarrow> string \<Rightarrow> int \<Rightarrow> world \<Rightarrow> int \<times> world" where
  "setEnableIPv6 isIfaceName interface on w =
     (if \<not> isIfaceName interface then (- 1, w\<lparr>errno := ENOENT\<rparr>)
      else let disable_ipv6 = (if on \<noteq> 0 then ''0'' else ''1'')
           in writeValueToPath ipv6_proc_path interface ''disable_ipv6'' disable_ipv6 w)"

definition setAcceptIPv6Ra :: "(string \<Rightarrow> bool) \<Rightarrow> string \<Rightarrow> int \<Rightarrow> world \<Rightarrow> int \<times> world" where
  "setAcceptIPv6Ra isIfaceName interface on w =
     (if \<not> isIfaceName interface then (- 1, w\<lparr>errno := ENOENT\<rparr>)
      else let accept_ra = (if on \<noteq> 0 then ''2'' else ''0'')
           in writeValueToPath ipv6_proc_path interface ''accept_ra'' accept_ra w)"

definition setAcceptIPv6Dad :: "(string \<Rightarrow> bool) \<Rightarrow> string \<Rightarrow> int \<Rightarrow> world \<Rightarrow> int \<times> world" where
  "setAcceptIPv6Dad isIfaceName interface on w =
     (if \<not> isIfaceName interface then (- 1, w\<lparr>errno := ENOENT\<rparr>)
      else let accept_dad = (if on \<noteq> 0 then ''1'' else ''0'')
           in writeValueToPath ipv6_proc_path interface ''accept_dad'' accept_dad w)"

definition setIPv6DadTransmits ::
  "(string \<Rightarrow> bool) \<Rightarrow> string \<Rightarrow> string \<Rightarrow> world \<Rightarrow> int \<times> world" where
  "setIPv6DadTransmits isIfaceName interface val w =
     (if \<not> isIfaceName interface then (- 1, w\<lparr>errno := ENOENT\<rparr>)
      else writeValueToPath ipv6_proc_path interface ''dad_transmits'' val w)"

definition setIPv6PrivacyExtensions ::
  "(string \<Rightarrow> bool) \<Rightarrow> string \<Rightarrow> int \<Rightarrow> world \<Rightarrow> int \<times> world" where
  "setIPv6PrivacyExtensions isIfaceName interface on w =
     (if \<not> isIfaceName interface then (- 1, w\<lparr>errno := ENOENT\<rparr>)
      else writeValueToPath ipv6_proc_path interface ''use_tempaddr''
             (if on \<noteq> 0 then ''2'' else ''0'') w)"

definition setIPv6NdOffload :: "string \<Rightarrow> int \<Rightarrow> world \<Rightarrow> int \<times> world" where
  "setIPv6NdOffload interface on w =
     (let (rc, w1) = access_X_OK wl_util_path w
      in if rc = 0 then
           let argv = [wl_util_path, ''-a'', interface, ''ndoe'', if on \<noteq> 0 then ''1'' else ''0''];
               (ret, w2) = android_fork_execvp argv w1
           in (ret, emit (LogNdOffload (on \<noteq> 0) interface ret (errno w2)) w2)
         else (0, w1))"

definition setMtu :: "(string \<Rightarrow> bool) \<Rightarrow> string \<Rightarrow> string \<Rightarrow> world \<Rightarrow> int \<times> world" where
  "setMtu isIfaceName interface mtu w =
     (if \<not> isIfaceName interface then (- 1, w\<lparr>errno := ENOENT\<rparr>)
      else writeValueToPath sys_net_path interface ''mtu'' mtu w)"

definition addAddress :: "string \<Rightarrow> string \<Rightarrow> int \<Rightarrow> world \<Rightarrow> int \<times> world" where
  "addAddress interface addrString prefixLength w =
     ifc_add_address interface addrString prefixLength w"

definition delAddress :: "string \<Rightarrow> string \<Rightarrow> int \<Rightarrow> world \<Rightarrow> int \<times> world" where
  "delAddress interface addrString prefixLength w =
     ifc_del_address interface addrString prefixLength w"

text \<open>
  \<open>getParameter\<close> returns its code and, when the read succeeded, what it stored in
  \<^verbatim>\<open>*value\<close>.
\<close>

definition getParameter ::
  "string \<Rightarrow> string \<Rightarrow> string \<Rightarrow> string \<Rightarrow> world \<Rightarrow> (int \<times> string option) \<times> world" where
  "getParameter family which interface parameter w =
     (let (path, w1) = getParameterPathname family which interface parameter w
      in if path = [] then ((- errno w1, None), w1)
         else let (r, w2) = ReadFileToString path w1
              in case r of
                   Some content \<Rightarrow> ((0, Some content), w2)
                 | None \<Rightarrow> ((- errno w2, None), w2))"

definition setParameter ::
  "string \<Rightarrow> string \<Rightarrow> string \<Rightarrow> string \<Rightarrow> string \<Rightarrow> world \<Rightarrow> int \<times> world" where
  "setParameter family which interface parameter val w =
     (let (path, w1) = getParameterPathname family which interface parameter w
      in if path = [] then (- errno w1, w1)
         else let (ok, w2) = WriteStringToFile val path w1
              in (if ok then 0 else - errno w2, w2))"

text \<open>
  Modelled from the spec: \<^verbatim>\<open>isIfaceName\<close>, the check the single-interface
  operations call, is a function of this repository declared outside this file. The spec
  (section 4.7) has these operations validate the externally supplied name with
  \<open>isInterfaceName\<close>, under the path-safety rules of its section 4.1.
\<close>

definition isIfaceName_spec :: "string \<Rightarrow> bool" where
  "isIfaceName_spec name \<longleftrightarrow> isInterfaceName name"

subsection \<open>Notions the properties are stated with\<close>

text \<open>
  The names \<open>forEachInterface\<close> visits after \<open>default\<close>: the entries of the
  directory that are directories and interface names, in the order of the listing.
\<close>

definition real_interfaces :: "world \<Rightarrow> string \<Rightarrow> string list" where
  "real_interfaces w dirname =
     (case dirs w dirname of
        None \<Rightarrow> []
      | Some ents \<Rightarrow>
          map d_name (filter (\<lambda>ent. d_type ent = DT_DIR \<and> isInterfaceName (d_name ent)) ents))"

text \<open>What opening the directory adds to the trace: a failed \<^verbatim>\<open>opendir\<close> is logged.\<close>

definition listing_events :: "world \<Rightarrow> string \<Rightarrow> event list" where
  "listing_events w dirname =
     (case dirs w dirname of
        None \<Rightarrow> [OpenDir dirname False, LogCantList dirname (path_error w dirname)]
      | Some ents \<Rightarrow> [OpenDir dirname True])"

text \<open>The write attempts of a trace, as pairs of path and value.\<close>

fun writes_of :: "event list \<Rightarrow> (string \<times> string) list" where
  "writes_of [] = []"
| "writes_of (Write path val ok # es) = (path, val) # writes_of es"
| "writes_of (e # es) = writes_of es"

text \<open>Whether the node at \<open>path\<close> takes \<open>val\<close>.\<close>

definition accepts :: "world \<Rightarrow> string \<Rightarrow> string \<Rightarrow> bool" where
  "accepts w path val \<longleftrightarrow> write_error w path val = None"

text \<open>The events an operation that takes \<open>w\<close> to \<open>w'\<close> has added to the trace.\<close>

definition new_events :: "world \<Rightarrow> world \<Rightarrow> event list" where
  "new_events w w' = drop (length (trace w)) (trace w')"

text \<open>What a pass of \<open>setAcceptIPv6RIO\<close> is expected to do for one interface.\<close>

definition min_plen_path :: "string \<Rightarrow> string" where
  "min_plen_path iface = path3 ipv6_proc_path iface ''accept_ra_rt_info_min_plen''"

definition max_plen_path :: "string \<Rightarrow> string" where
  "max_plen_path iface = path3 ipv6_proc_path iface ''accept_ra_rt_info_max_plen''"

definition rio_events :: "world \<Rightarrow> int \<Rightarrow> int \<Rightarrow> string \<Rightarrow> event list" where
  "rio_events w mn mx iface =
     (if accepts w (min_plen_path iface) (to_string mn)
      then [Write (min_plen_path iface) (to_string mn) True,
            Write (max_plen_path iface) (to_string mx)
              (accepts w (max_plen_path iface) (to_string mx))]
      else [Write (min_plen_path iface) (to_string mn) False])"

text \<open>
  A trace in which every write to a \<open>max_plen\<close> node comes right after a successful
  write of \<open>mnstr\<close> to the \<open>min_plen\<close> node of the same interface; and a trace that
  starts with a write to a \<open>max_plen\<close> node.
\<close>

definition max_guarded :: "string \<Rightarrow> event list \<Rightarrow> bool" where
  "max_guarded mnstr tr \<longleftrightarrow>
     (\<forall>j iface val ok. j < length tr \<and> tr ! j = Write (max_plen_path iface) val ok \<longrightarrow>
        0 < j \<and> tr ! (j - 1) = Write (min_plen_path iface) mnstr True)"

definition starts_with_max :: "event list \<Rightarrow> bool" where
  "starts_with_max tr \<longleftrightarrow> (\<exists>iface val ok rest. tr = Write (max_plen_path iface) val ok # rest)"

text \<open>The outcome of an operation that makes exactly one write, of \<open>val\<close> to \<open>path\<close>.\<close>

definition one_write :: "string \<Rightarrow> string \<Rightarrow> world \<Rightarrow> int \<times> world \<Rightarrow> bool" where
  "one_write path val w r \<longleftrightarrow>
     new_events w (snd r) = [Write path val (accepts w path val)] \<and>
     fst r = (if accepts w path val then 0 else - 1)"

text \<open>No capability was called between \<open>w\<close> and \<open>w'\<close>, and no file changed.\<close>

definition untouched :: "world \<Rightarrow> world \<Rightarrow> bool" where
  "untouched w w' \<longleftrightarrow> trace w' = trace w \<and> files w' = files w"

text \<open>The oracles of the outside, which no operation of the file changes.\<close>

definition same_env :: "world \<Rightarrow> world \<Rightarrow> bool" where
  "same_env w w' \<longleftrightarrow>
     write_error w' = write_error w \<and> path_error w' = path_error w \<and> dirs w' = dirs w \<and>
     executable w' = executable w \<and> exec_status w' = exec_status w \<and>
     ifc_add_result w' = ifc_add_result w \<and> ifc_del_result w' = ifc_del_result w"

text \<open>A world reached from \<open>w0\<close> by operations of the file: the trace has grown.\<close>

definition extends :: "world \<Rightarrow> world \<Rightarrow> bool" where
  "extends w0 w \<longleftrightarrow> same_env w0 w \<and> take (length (trace w0)) (trace w) = trace w0"

subsection \<open>Example worlds\<close>

definition fake_world ::
  "(string \<rightharpoonup> dirent list) \<Rightarrow> (string \<Rightarrow> string \<Rightarrow> int option) \<Rightarrow> world" where
  "fake_world ds we =
     \<lparr>files = Map.empty, write_error = we, path_error = (\<lambda>_. ENOENT), dirs = ds,
      executable = (\<lambda>_. False), exec_status = (\<lambda>_. 0),
      ifc_add_result = (\<lambda>_ _ _. 0), ifc_del_result = (\<lambda>_ _ _. 0),
      errno = 0, trace = []\<rparr>"

text \<open>A listing with two real interfaces, a file and the reserved names.\<close>

definition example_entries :: "dirent list" where
  "example_entries =
     [\<lparr>d_type = DT_DIR, d_name = ''.''\<rparr>, \<lparr>d_type = DT_DIR, d_name = ''..''\<rparr>,
      \<lparr>d_type = DT_DIR, d_name = ''all''\<rparr>, \<lparr>d_type = DT_DIR, d_name = ''default''\<rparr>,
      \<lparr>d_type = DT_DIR, d_name = ''eth0''\<rparr>, \<lparr>d_type = DT_REG, d_name = ''notes''\<rparr>,
      \<lparr>d_type = DT_DIR, d_name = ''wlan0''\<rparr>]"

text \<open>A listing with no real interface.\<close>

definition bare_entries :: "dirent list" where
  "bare_entries =
     [\<lparr>d_type = DT_DIR, d_name = ''.''\<rparr>, \<lparr>d_type = DT_DIR, d_name = ''..''\<rparr>,
      \<lparr>d_type = DT_DIR, d_name = ''all''\<rparr>, \<lparr>d_type = DT_DIR, d_name = ''default''\<rparr>]"

definition all_writable :: "string \<Rightarrow> string \<Rightarrow> int option" where
  "all_writable path val = None"

definition unwritable :: "string \<Rightarrow> string \<Rightarrow> string \<Rightarrow> int option" where
  "unwritable node path val = (if path = node then Some ENOENT else None)"

text \<open>Two real interfaces; the \<open>min_plen\<close> node of \<open>eth0\<close> takes no value.\<close>

definition eth0_min_unwritable :: world where
  "eth0_min_unwritable =
     fake_world (\<lambda>d. Some example_entries)
       (unwritable ''/proc/sys/net/ipv6/conf/eth0/accept_ra_rt_info_min_plen'')"

text \<open>No real interface, every node writable; and the same with the \<open>min_plen\<close> node of
  \<open>default\<close> taking no value.\<close>

definition no_interfaces :: world where
  "no_interfaces = fake_world (\<lambda>d. Some bare_entries) all_writable"

definition no_interfaces_min_unwritable :: world where
  "no_interfaces_min_unwritable =
     fake_world (\<lambda>d. Some bare_entries)
       (unwritable ''/proc/sys/net/ipv6/conf/default/accept_ra_rt_info_min_plen'')"

section \<open>Properties\<close>

subsection \<open>Library facts\<close>

lemma strcmp_eq_0_iff: "strcmp a b = 0 \<longleftrightarrow> a = b"
  by (induction a b rule: strcmp.induct) auto

lemma strchr_None_iff: "c \<noteq> CHR 0x00 \<Longrightarrow> strchr s c = None \<longleftrightarrow> c \<notin> set s"
  by (induction s) auto

lemma isNormalPathComponent_iff:
  "isNormalPathComponent name \<longleftrightarrow> name \<noteq> ''.'' \<and> name \<noteq> ''..'' \<and> CHR ''/'' \<notin> set name"
  by (simp add: isNormalPathComponent_def strcmp_eq_0_iff strchr_None_iff)

lemma isInterfaceName_iff:
  "isInterfaceName name \<longleftrightarrow>
     name \<noteq> ''.'' \<and> name \<noteq> ''..'' \<and> CHR ''/'' \<notin> set name \<and>
     name \<noteq> ''default'' \<and> name \<noteq> ''all''"
  by (simp add: isInterfaceName_def isNormalPathComponent_iff strcmp_eq_0_iff)

lemma isAddressFamilyPathComponent_iff:
  "isAddressFamilyPathComponent f \<longleftrightarrow> f = ''ipv4'' \<or> f = ''ipv6''"
  by (simp add: isAddressFamilyPathComponent_def strcmp_eq_0_iff)

lemma dec_nat_small: "n < 10 \<Longrightarrow> dec_nat n = [digit_char n]"
  by (subst dec_nat.simps) simp

lemma dec_nat_large: "10 \<le> n \<Longrightarrow> dec_nat n = dec_nat (n div 10) @ [digit_char (n mod 10)]"
  by (subst dec_nat.simps) simp

lemmas dec_nat_eval = dec_nat_small dec_nat_large digit_char_def

subsection \<open>Path safety\<close>

text \<open>
  C3, as the code has it: \<open>isNormalPathComponent\<close> holds exactly of the names that are
  neither \<open>.\<close> nor \<open>..\<close> and contain no \<open>/\<close>; so it fails on every name that
  contains \<open>/\<close>, and on \<open>.\<close> and \<open>..\<close> themselves.
\<close>

theorem isNormalPathComponent_spec:
  "(isNormalPathComponent name \<longleftrightarrow>
      name \<noteq> ''.'' \<and> name \<noteq> ''..'' \<and> CHR ''/'' \<notin> set name) \<and>
   (CHR ''/'' \<in> set name \<or> name = ''.'' \<or> name = ''..'' \<longrightarrow> \<not> isNormalPathComponent name)"
  by (auto simp: isNormalPathComponent_iff)

theorem isNormalPathComponent_spec_witness:
  "\<not> isNormalPathComponent ''net/eth0'' \<and> \<not> isNormalPathComponent ''.'' \<and>
   \<not> isNormalPathComponent ''..'' \<and> isNormalPathComponent ''eth0''"
  using isNormalPathComponent_spec [of "''net/eth0''"] isNormalPathComponent_spec [of "''.''"]
    isNormalPathComponent_spec [of "''..''"] isNormalPathComponent_spec [of "''eth0''"]
  by simp

text \<open>
  C3 as stated fails: a name that contains a dot without being \<open>.\<close> or \<open>..\<close>, such
  as that of a VLAN interface, is a normal path component.
\<close>

theorem isNormalPathComponent_dot_counterexample:
  "CHR ''.'' \<in> set ''eth0.100'' \<and> isNormalPathComponent ''eth0.100''"
  by (simp add: isNormalPathComponent_def)

text \<open>
  C8: \<open>default\<close> and \<open>all\<close> are normal path components and are not interface names;
  on every other name \<open>isInterfaceName\<close> and \<open>isNormalPathComponent\<close> agree.
\<close>

theorem isInterfaceName_reserved:
  "\<not> isInterfaceName ''default'' \<and> \<not> isInterfaceName ''all'' \<and>
   isNormalPathComponent ''default'' \<and> isNormalPathComponent ''all'' \<and>
   (name \<noteq> ''default'' \<and> name \<noteq> ''all'' \<longrightarrow>
      isInterfaceName name = isNormalPathComponent name)"
  by (simp add: isInterfaceName_iff isNormalPathComponent_iff)

theorem isInterfaceName_reserved_witness:
  "isInterfaceName ''eth0'' \<and> isNormalPathComponent ''eth0'' \<and>
   \<not> isInterfaceName ''..'' \<and> \<not> isNormalPathComponent ''..''"
  using isInterfaceName_reserved [of "''eth0''"] isInterfaceName_reserved [of "''..''"]
  by (simp add: isNormalPathComponent_def)

subsection \<open>One write to one node\<close>

lemma writeValueToPath_eq:
  "writeValueToPath d s b v w =
     (if accepts w (path3 d s b) v
      then (0, emit (Write (path3 d s b) v True) (w\<lparr>files := (files w)(path3 d s b \<mapsto> v)\<rparr>))
      else (- 1, emit (Write (path3 d s b) v False) (w\<lparr>errno := the (write_error w (path3 d s b) v)\<rparr>)))"
  by (cases "write_error w (path3 d s b) v")
     (simp_all add: accepts_def writeValueToPath_def WriteStringToFile_def Let_def)

lemma writeValueToPath_trace:
  "trace (snd (writeValueToPath d s b v w)) =
     trace w @ [Write (path3 d s b) v (accepts w (path3 d s b) v)]"
  by (simp add: writeValueToPath_eq emit_def)

lemma writeValueToPath_fst:
  "fst (writeValueToPath d s b v w) = (if accepts w (path3 d s b) v then 0 else - 1)"
  by (simp add: writeValueToPath_eq)

lemma writeValueToPath_one_write:
  "one_write (path3 d s b) v w (writeValueToPath d s b v w)"
  by (simp add: one_write_def new_events_def writeValueToPath_trace writeValueToPath_fst)

lemma writeValueToPath_env: "same_env w0 w \<Longrightarrow> same_env w0 (snd (writeValueToPath d s b v w))"
  by (simp add: same_env_def writeValueToPath_eq emit_def)

subsection \<open>The single-target setters\<close>

text \<open>
  C6: each of \<open>setEnableIPv6\<close>, \<open>setAcceptIPv6Ra\<close>, \<open>setAcceptIPv6Dad\<close>,
  \<open>setIPv6DadTransmits\<close>, \<open>setIPv6PrivacyExtensions\<close> and \<open>setMtu\<close>, given a name
  that fails the interface-name check, returns -1 and leaves the world as it was but for
  \<^verbatim>\<open>errno\<close>, now \<open>ENOENT\<close>: no event, no file changed. Given a name that passes, it
  makes exactly one write, and returns 0 when the node took the value and -1 when it did
  not.
\<close>

theorem single_target_setters:
  "(\<not> isIfaceName iface \<longrightarrow>
      setEnableIPv6 isIfaceName iface on w = (- 1, w\<lparr>errno := ENOENT\<rparr>) \<and>
      setAcceptIPv6Ra isIfaceName iface on w = (- 1, w\<lparr>errno := ENOENT\<rparr>) \<and>
      setAcceptIPv6Dad isIfaceName iface on w = (- 1, w\<lparr>errno := ENOENT\<rparr>) \<and>
      setIPv6DadTransmits isIfaceName iface val w = (- 1, w\<lparr>errno := ENOENT\<rparr>) \<and>
      setIPv6PrivacyExtensions isIfaceName iface on w = (- 1, w\<lparr>errno := ENOENT\<rparr>) \<and>
      setMtu isIfaceName iface val w = (- 1, w\<lparr>errno := ENOENT\<rparr>)) \<and>
   (isIfaceName iface \<longrightarrow>
      one_write (path3 ipv6_proc_path iface ''disable_ipv6'') (if on \<noteq> 0 then ''0'' else ''1'') w
        (setEnableIPv6 isIfaceName iface on w) \<and>
      one_write (path3 ipv6_proc_path iface ''accept_ra'') (if on \<noteq> 0 then ''2'' else ''0'') w
        (setAcceptIPv6Ra isIfaceName iface on w) \<and>
      one_write (path3 ipv6_proc_path iface ''accept_dad'') (if on \<noteq> 0 then ''1'' else ''0'') w
        (setAcceptIPv6Dad isIfaceName iface on w) \<and>
      one_write (path3 ipv6_proc_path iface ''dad_transmits'') val w
        (setIPv6DadTransmits isIfaceName iface val w) \<and>
      one_write (path3 ipv6_proc_path iface ''use_tempaddr'') (if on \<noteq> 0 then ''2'' else ''0'') w
        (setIPv6PrivacyExtensions isIfaceName iface on w) \<and>
      one_write (path3 sys_net_path iface ''mtu'') val w (setMtu isIfaceName iface val w))"
  by (simp add: setEnableIPv6_def setAcceptIPv6Ra_def setAcceptIPv6Dad_def
      setIPv6DadTransmits_def setIPv6PrivacyExtensions_def setMtu_def
      writeValueToPath_one_write)

theorem single_target_setters_witness:
  "setMtu isInterfaceName ''..'' ''1500'' (fake_world Map.empty all_writable) =
     (- 1, (fake_world Map.empty all_writable)\<lparr>errno := ENOENT\<rparr>) \<and>
   fst (setMtu isInterfaceName ''eth0'' ''1500'' (fake_world Map.empty all_writable)) = 0 \<and>
   trace (snd (setMtu isInterfaceName ''eth0'' ''1500'' (fake_world Map.empty all_writable))) =
     [Write ''/sys/class/net/eth0/mtu'' ''1500'' True] \<and>
   fst (setEnableIPv6 isInterfaceName ''eth0'' 1
          (fake_world Map.empty (unwritable ''/proc/sys/net/ipv6/conf/eth0/disable_ipv6''))) = - 1 \<and>
   trace (snd (setEnableIPv6 isInterfaceName ''eth0'' 1
          (fake_world Map.empty (unwritable ''/proc/sys/net/ipv6/conf/eth0/disable_ipv6'')))) =
     [Write ''/proc/sys/net/ipv6/conf/eth0/disable_ipv6'' ''0'' False]"
  using single_target_setters [where isIfaceName = isInterfaceName and iface = "''..''"
      and val = "''1500''" and on = 1 and w = "fake_world Map.empty all_writable"]
    single_target_setters [where isIfaceName = isInterfaceName and iface = "''eth0''"
      and val = "''1500''" and on = 1 and w = "fake_world Map.empty all_writable"]
    single_target_setters [where isIfaceName = isInterfaceName and iface = "''eth0''"
      and val = "''1500''" and on = 1
      and w = "fake_world Map.empty (unwritable ''/proc/sys/net/ipv6/conf/eth0/disable_ipv6'')"]
  by (simp add: isInterfaceName_iff one_write_def new_events_def accepts_def fake_world_def
      all_writable_def unwritable_def path3_def sys_net_path_def ipv6_proc_path_def)

text \<open>
  C9: for a name that passes the check, \<open>setAcceptIPv6Ra\<close> writes \<open>2\<close> to the
  \<open>accept_ra\<close> node of the interface when \<open>on\<close> is true and \<open>0\<close> when it is false, and
  \<open>setIPv6PrivacyExtensions\<close> writes \<open>2\<close> or \<open>0\<close> to its \<open>use_tempaddr\<close> node; for
  any name at all, neither writes \<open>1\<close> anywhere.
\<close>

theorem accept_ra_and_privacy_values:
  "(isIfaceName iface \<longrightarrow>
      new_events w (snd (setAcceptIPv6Ra isIfaceName iface on w)) =
        [Write (path3 ipv6_proc_path iface ''accept_ra'') (if on \<noteq> 0 then ''2'' else ''0'')
           (accepts w (path3 ipv6_proc_path iface ''accept_ra'') (if on \<noteq> 0 then ''2'' else ''0''))] \<and>
      new_events w (snd (setIPv6PrivacyExtensions isIfaceName iface on w)) =
        [Write (path3 ipv6_proc_path iface ''use_tempaddr'') (if on \<noteq> 0 then ''2'' else ''0'')
           (accepts w (path3 ipv6_proc_path iface ''use_tempaddr'') (if on \<noteq> 0 then ''2'' else ''0''))]) \<and>
   Write path ''1'' ok \<notin> set (new_events w (snd (setAcceptIPv6Ra isIfaceName iface on w))) \<and>
   Write path ''1'' ok \<notin> set (new_events w (snd (setIPv6PrivacyExtensions isIfaceName iface on w)))"
  by (simp add: setAcceptIPv6Ra_def setIPv6PrivacyExtensions_def new_events_def
      writeValueToPath_trace)

theorem accept_ra_and_privacy_values_witness:
  "new_events (fake_world Map.empty all_writable)
     (snd (setAcceptIPv6Ra isInterfaceName ''wlan0'' 1 (fake_world Map.empty all_writable))) =
     [Write ''/proc/sys/net/ipv6/conf/wlan0/accept_ra'' ''2'' True] \<and>
   new_events (fake_world Map.empty all_writable)
     (snd (setIPv6PrivacyExtensions isInterfaceName ''wlan0'' 0 (fake_world Map.empty all_writable))) =
     [Write ''/proc/sys/net/ipv6/conf/wlan0/use_tempaddr'' ''0'' True]"
  using accept_ra_and_privacy_values [where isIfaceName = isInterfaceName and iface = "''wlan0''"
      and on = 1 and w = "fake_world Map.empty all_writable"
      and path = "''/proc/sys/net/ipv6/conf/wlan0/accept_ra''" and ok = True]
    accept_ra_and_privacy_values [where isIfaceName = isInterfaceName and iface = "''wlan0''"
      and on = 0 and w = "fake_world Map.empty all_writable"
      and path = "''/proc/sys/net/ipv6/conf/wlan0/use_tempaddr''" and ok = True]
  by (simp add: isInterfaceName_iff accepts_def fake_world_def all_writable_def path3_def
      ipv6_proc_path_def)

text \<open>
  C10: for a name that passes the check, \<open>setEnableIPv6\<close> writes the inverted flag to
  the \<open>disable_ipv6\<close> node of the interface, \<open>0\<close> when \<open>on\<close> is nonzero and \<open>1\<close> when
  it is zero; whatever the name, it writes no other value and to no other node.
\<close>

theorem setEnableIPv6_inverted:
  "(isIfaceName iface \<longrightarrow>
      new_events w (snd (setEnableIPv6 isIfaceName iface on w)) =
        [Write (path3 ipv6_proc_path iface ''disable_ipv6'') (if on \<noteq> 0 then ''0'' else ''1'')
           (accepts w (path3 ipv6_proc_path iface ''disable_ipv6'') (if on \<noteq> 0 then ''0'' else ''1''))]) \<and>
   (Write path val ok \<in> set (new_events w (snd (setEnableIPv6 isIfaceName iface on w))) \<longrightarrow>
      path = path3 ipv6_proc_path iface ''disable_ipv6'' \<and>
      val = (if on \<noteq> 0 then ''0'' else ''1''))"
  by (simp add: setEnableIPv6_def new_events_def writeValueToPath_trace)

theorem setEnableIPv6_inverted_witness:
  "new_events (fake_world Map.empty all_writable)
     (snd (setEnableIPv6 isInterfaceName ''wlan0'' 1 (fake_world Map.empty all_writable))) =
     [Write ''/proc/sys/net/ipv6/conf/wlan0/disable_ipv6'' ''0'' True] \<and>
   new_events (fake_world Map.empty all_writable)
     (snd (setEnableIPv6 isInterfaceName ''wlan0'' 0 (fake_world Map.empty all_writable))) =
     [Write ''/proc/sys/net/ipv6/conf/wlan0/disable_ipv6'' ''1'' True]"
  using setEnableIPv6_inverted [where isIfaceName = isInterfaceName and iface = "''wlan0''"
      and on = 1 and w = "fake_world Map.empty all_writable"
      and path = "''/proc/sys/net/ipv6/conf/wlan0/disable_ipv6''" and val = "''0''" and ok = True]
    setEnableIPv6_inverted [where isIfaceName = isInterfaceName and iface = "''wlan0''"
      and on = 0 and w = "fake_world Map.empty all_writable"
      and path = "''/proc/sys/net/ipv6/conf/wlan0/disable_ipv6''" and val = "''1''" and ok = True]
  by (simp add: isInterfaceName_iff accepts_def fake_world_def all_writable_def path3_def
      ipv6_proc_path_def)

subsection \<open>The named-parameter accessor\<close>

lemma getParameterPathname_bad_family:
  "\<not> isAddressFamilyPathComponent family \<Longrightarrow>
     getParameterPathname family which interface parameter w = ([], w\<lparr>errno := EAFNOSUPPORT\<rparr>)"
  by (simp add: getParameterPathname_def)

lemma getParameterPathname_bad_component:
  "isAddressFamilyPathComponent family \<Longrightarrow>
   \<not> isNormalPathComponent which \<or> \<not> isInterfaceName interface \<or> \<not> isNormalPathComponent parameter \<Longrightarrow>
     getParameterPathname family which interface parameter w = ([], w\<lparr>errno := EINVAL\<rparr>)"
  by (auto simp add: getParameterPathname_def)

text \<open>
  C7: with a family other than \<open>ipv4\<close> and \<open>ipv6\<close>, \<open>getParameter\<close> and
  \<open>setParameter\<close> fail with the unsupported-family error, \<open>-EAFNOSUPPORT\<close>; with
  one of the two families and a category, interface or parameter that fails its
  path-safety check, they fail with the invalid-argument error, \<open>-EINVAL\<close>. Both codes
  are negative and differ, and in both cases the world is as before but for
  \<^verbatim>\<open>errno\<close>: nothing is read or written. (\<open>getParameterPathname\<close> tests the
  family first, so the first case holds whatever the other components are.)
\<close>

theorem accessor_validation:
  "(family \<noteq> ''ipv4'' \<and> family \<noteq> ''ipv6'' \<longrightarrow>
      getParameter family which interface parameter w =
        ((- EAFNOSUPPORT, None), w\<lparr>errno := EAFNOSUPPORT\<rparr>) \<and>
      setParameter family which interface parameter val w =
        (- EAFNOSUPPORT, w\<lparr>errno := EAFNOSUPPORT\<rparr>)) \<and>
   ((family = ''ipv4'' \<or> family = ''ipv6'') \<and>
    (\<not> isNormalPathComponent which \<or> \<not> isInterfaceName interface \<or>
     \<not> isNormalPathComponent parameter) \<longrightarrow>
      getParameter family which interface parameter w = ((- EINVAL, None), w\<lparr>errno := EINVAL\<rparr>) \<and>
      setParameter family which interface parameter val w = (- EINVAL, w\<lparr>errno := EINVAL\<rparr>)) \<and>
   - EAFNOSUPPORT < 0 \<and> - EINVAL < 0 \<and> EAFNOSUPPORT \<noteq> EINVAL"
proof -
  have "- EAFNOSUPPORT < 0 \<and> - EINVAL < 0 \<and> EAFNOSUPPORT \<noteq> EINVAL"
    by (simp add: EAFNOSUPPORT_def EINVAL_def)
  moreover have "getParameter family which interface parameter w =
        ((- EAFNOSUPPORT, None), w\<lparr>errno := EAFNOSUPPORT\<rparr>) \<and>
      setParameter family which interface parameter val w =
        (- EAFNOSUPPORT, w\<lparr>errno := EAFNOSUPPORT\<rparr>)"
    if "family \<noteq> ''ipv4'' \<and> family \<noteq> ''ipv6''"
    using that
    by (simp add: getParameter_def setParameter_def getParameterPathname_bad_family
        isAddressFamilyPathComponent_iff)
  moreover have "getParameter family which interface parameter w =
        ((- EINVAL, None), w\<lparr>errno := EINVAL\<rparr>) \<and>
      setParameter family which interface parameter val w = (- EINVAL, w\<lparr>errno := EINVAL\<rparr>)"
    if "family = ''ipv4'' \<or> family = ''ipv6''"
      and "\<not> isNormalPathComponent which \<or> \<not> isInterfaceName interface \<or>
     \<not> isNormalPathComponent parameter"
    using that getParameterPathname_bad_component [of family which interface parameter w]
    by (simp add: getParameter_def setParameter_def isAddressFamilyPathComponent_iff)
  ultimately show ?thesis by blast
qed

theorem accessor_validation_witness:
  "getParameter ''ipx'' ''conf'' ''eth0'' ''accept_ra'' (fake_world Map.empty all_writable) =
     ((- 97, None), (fake_world Map.empty all_writable)\<lparr>errno := 97\<rparr>) \<and>
   setParameter ''ipv6'' ''conf'' ''default'' ''accept_ra'' ''2'' (fake_world Map.empty all_writable) =
     (- 22, (fake_world Map.empty all_writable)\<lparr>errno := 22\<rparr>) \<and>
   getParameter ''ipv4'' ''neigh'' ''eth0'' ''../../x'' (fake_world Map.empty all_writable) =
     ((- 22, None), (fake_world Map.empty all_writable)\<lparr>errno := 22\<rparr>)"
  using accessor_validation [where family = "''ipx''" and which = "''conf''" and interface = "''eth0''"
      and parameter = "''accept_ra''" and val = "''2''" and w = "fake_world Map.empty all_writable"]
    accessor_validation [where family = "''ipv6''" and which = "''conf''" and interface = "''default''"
      and parameter = "''accept_ra''" and val = "''2''" and w = "fake_world Map.empty all_writable"]
    accessor_validation [where family = "''ipv4''" and which = "''neigh''" and interface = "''eth0''"
      and parameter = "''../../x''" and val = "''2''" and w = "fake_world Map.empty all_writable"]
  by (simp add: isInterfaceName_iff isNormalPathComponent_iff EAFNOSUPPORT_def EINVAL_def)

subsection \<open>Which operations check the interface name\<close>

lemma getParameterPathname_bad_interface:
  "\<not> isInterfaceName interface \<Longrightarrow>
     fst (getParameterPathname family which interface parameter w) = [] \<and>
     untouched w (snd (getParameterPathname family which interface parameter w))"
  by (simp add: getParameterPathname_def untouched_def)

text \<open>
  C2, as the code has it: every public operation that takes an interface name, except
  \<open>addAddress\<close>, \<open>delAddress\<close> and \<open>setIPv6NdOffload\<close>, validates the name by the
  path-safety rules before any external effect: given a name that \<open>isInterfaceName\<close>
  rejects, the six setters, \<open>getParameter\<close> and \<open>setParameter\<close> call no capability
  and change no file. \<open>addAddress\<close>, \<open>delAddress\<close> and \<open>setIPv6NdOffload\<close> make no
  check: the name goes as given to the address primitive, and to the vendor helper when
  the helper can be executed.
\<close>

theorem checked_and_unchecked_names:
  "(\<not> isInterfaceName iface \<longrightarrow>
      untouched w (snd (setEnableIPv6 isIfaceName_spec iface on w)) \<and>
      untouched w (snd (setAcceptIPv6Ra isIfaceName_spec iface on w)) \<and>
      untouched w (snd (setAcceptIPv6Dad isIfaceName_spec iface on w)) \<and>
      untouched w (snd (setIPv6DadTransmits isIfaceName_spec iface val w)) \<and>
      untouched w (snd (setIPv6PrivacyExtensions isIfaceName_spec iface on w)) \<and>
      untouched w (snd (setMtu isIfaceName_spec iface val w)) \<and>
      untouched w (snd (getParameter family which iface parameter w)) \<and>
      untouched w (snd (setParameter family which iface parameter val w))) \<and>
   new_events w (snd (addAddress iface addr plen w)) = [IfcAddAddress iface addr plen] \<and>
   new_events w (snd (delAddress iface addr plen w)) = [IfcDelAddress iface addr plen] \<and>
   (executable w wl_util_path \<longrightarrow>
      ForkExecvp [wl_util_path, ''-a'', iface, ''ndoe'', if on \<noteq> 0 then ''1'' else ''0'']
         (fst (setIPv6NdOffload iface on w))
        \<in> set (new_events w (snd (setIPv6NdOffload iface on w))))"
proof -
  have "untouched w (snd (getParameter family which iface parameter w)) \<and>
      untouched w (snd (setParameter family which iface parameter val w))"
    if "\<not> isInterfaceName iface"
    using getParameterPathname_bad_interface [OF that, of family which parameter w]
    by (simp add: getParameter_def setParameter_def split_beta)
  moreover have "new_events w (snd (addAddress iface addr plen w)) = [IfcAddAddress iface addr plen]"
    by (simp add: addAddress_def ifc_add_address_def new_events_def emit_def)
  moreover have "new_events w (snd (delAddress iface addr plen w)) = [IfcDelAddress iface addr plen]"
    by (simp add: delAddress_def ifc_del_address_def new_events_def emit_def)
  moreover have "ForkExecvp [wl_util_path, ''-a'', iface, ''ndoe'', if on \<noteq> 0 then ''1'' else ''0'']
         (fst (setIPv6NdOffload iface on w))
        \<in> set (new_events w (snd (setIPv6NdOffload iface on w)))"
    if "executable w wl_util_path"
    using that
    by (simp add: setIPv6NdOffload_def access_X_OK_def android_fork_execvp_def new_events_def
        emit_def Let_def)
  moreover have "\<not> isInterfaceName iface \<longrightarrow>
      untouched w (snd (setEnableIPv6 isIfaceName_spec iface on w)) \<and>
      untouched w (snd (setAcceptIPv6Ra isIfaceName_spec iface on w)) \<and>
      untouched w (snd (setAcceptIPv6Dad isIfaceName_spec iface on w)) \<and>
      untouched w (snd (setIPv6DadTransmits isIfaceName_spec iface val w)) \<and>
      untouched w (snd (setIPv6PrivacyExtensions isIfaceName_spec iface on w)) \<and>
      untouched w (snd (setMtu isIfaceName_spec iface val w))"
    by (simp add: setEnableIPv6_def setAcceptIPv6Ra_def setAcceptIPv6Dad_def
        setIPv6DadTransmits_def setIPv6PrivacyExtensions_def setMtu_def untouched_def
        isIfaceName_spec_def)
  ultimately show ?thesis by blast
qed

theorem checked_and_unchecked_names_witness:
  "\<not> isInterfaceName ''../lo'' \<and>
   untouched (fake_world Map.empty all_writable)
     (snd (setMtu isIfaceName_spec ''../lo'' ''1500'' (fake_world Map.empty all_writable))) \<and>
   untouched (fake_world Map.empty all_writable)
     (snd (setEnableIPv6 isIfaceName_spec ''../lo'' 1 (fake_world Map.empty all_writable))) \<and>
   untouched (fake_world Map.empty all_writable)
     (snd (setParameter ''ipv6'' ''conf'' ''../lo'' ''mtu'' ''1500'' (fake_world Map.empty all_writable))) \<and>
   ForkExecvp [''/vendor/xbin/wlutil'', ''-a'', ''wlan0'', ''ndoe'', ''1''] 0
     \<in> set (new_events ((fake_world Map.empty all_writable)\<lparr>executable := (\<lambda>p. p = wl_util_path)\<rparr>)
          (snd (setIPv6NdOffload ''wlan0'' 1
             ((fake_world Map.empty all_writable)\<lparr>executable := (\<lambda>p. p = wl_util_path)\<rparr>))))"
  using checked_and_unchecked_names [where iface = "''../lo''"
      and family = "''ipv6''" and which = "''conf''" and parameter = "''mtu''"
      and val = "''1500''" and on = 1 and addr = "''::1''" and plen = 128
      and w = "fake_world Map.empty all_writable"]
    checked_and_unchecked_names [where iface = "''wlan0''"
      and family = "''ipv6''" and which = "''conf''" and parameter = "''mtu''"
      and val = "''1500''" and on = 1 and addr = "''::1''" and plen = 128
      and w = "(fake_world Map.empty all_writable)\<lparr>executable := (\<lambda>p. p = wl_util_path)\<rparr>"]
  by (simp add: isInterfaceName_iff fake_world_def wl_util_path_def
      setIPv6NdOffload_def access_X_OK_def android_fork_execvp_def emit_def)

text \<open>
  C2 as stated fails on the three operations it names: \<open>..\<close>, which the path-safety
  rules reject, reaches the address primitive and the vendor helper.
\<close>

theorem unvalidated_name_counterexample:
  "\<not> isNormalPathComponent ''..'' \<and> \<not> isInterfaceName ''..'' \<and>
   new_events (fake_world Map.empty all_writable)
     (snd (addAddress ''..'' ''2001:db8::1'' 64 (fake_world Map.empty all_writable))) =
     [IfcAddAddress ''..'' ''2001:db8::1'' 64] \<and>
   new_events (fake_world Map.empty all_writable)
     (snd (delAddress ''..'' ''2001:db8::1'' 64 (fake_world Map.empty all_writable))) =
     [IfcDelAddress ''..'' ''2001:db8::1'' 64] \<and>
   new_events ((fake_world Map.empty all_writable)\<lparr>executable := (\<lambda>p. p = wl_util_path)\<rparr>)
     (snd (setIPv6NdOffload ''..'' 1
        ((fake_world Map.empty all_writable)\<lparr>executable := (\<lambda>p. p = wl_util_path)\<rparr>))) =
     [Access ''/vendor/xbin/wlutil'' True,
      ForkExecvp [''/vendor/xbin/wlutil'', ''-a'', ''..'', ''ndoe'', ''1''] 0,
      LogNdOffload True ''..'' 0 0]"
  by (simp add: isNormalPathComponent_iff isInterfaceName_iff new_events_def fake_world_def
      addAddress_def delAddress_def ifc_add_address_def ifc_del_address_def
      setIPv6NdOffload_def access_X_OK_def android_fork_execvp_def emit_def wl_util_path_def)

subsection \<open>Visiting the interfaces\<close>

lemma readdir_loop_fold:
  "readdir_loop dirname fn ents w =
     fold (fn dirname)
       (map d_name (filter (\<lambda>ent. d_type ent = DT_DIR \<and> isInterfaceName (d_name ent)) ents)) w"
  by (induction ents arbitrary: w) auto

text \<open>
  C4: \<open>forEachInterface\<close> calls the action on \<open>default\<close> first, whatever the
  directory is. When the directory cannot be opened it logs that and returns: the action
  has run once. Otherwise it calls the action once for each entry that is a directory
  and an interface name, in the order of the listing, and on no other entry; the loop is
  a fold of the action over these names.
\<close>

theorem forEachInterface_visits:
  "forEachInterface dirname fn w =
     (let w1 = fn dirname ''default'' w
      in case dirs w1 dirname of
           None \<Rightarrow>
             emit (LogCantList dirname (path_error w1 dirname))
               (emit (OpenDir dirname False) (w1\<lparr>errno := path_error w1 dirname\<rparr>))
         | Some ents \<Rightarrow>
             fold (fn dirname)
               (map d_name
                  (filter (\<lambda>ent. d_type ent = DT_DIR \<and> isInterfaceName (d_name ent)) ents))
               (emit (OpenDir dirname True) w1))"
  by (simp add: forEachInterface_def opendir_def Let_def readdir_loop_fold emit_def
      split: option.splits)

theorem forEachInterface_visits_witness:
  "trace (forEachInterface ''/proc/sys/net/ipv6/conf''
            (\<lambda>path iface. emit (Write (path3 path iface ''accept_ra'') ''2'' True))
            (fake_world (\<lambda>d. Some example_entries) all_writable)) =
     [Write ''/proc/sys/net/ipv6/conf/default/accept_ra'' ''2'' True,
      OpenDir ''/proc/sys/net/ipv6/conf'' True,
      Write ''/proc/sys/net/ipv6/conf/eth0/accept_ra'' ''2'' True,
      Write ''/proc/sys/net/ipv6/conf/wlan0/accept_ra'' ''2'' True] \<and>
   trace (forEachInterface ''/proc/sys/net/ipv6/conf''
            (\<lambda>path iface. emit (Write (path3 path iface ''accept_ra'') ''2'' True))
            (fake_world Map.empty all_writable)) =
     [Write ''/proc/sys/net/ipv6/conf/default/accept_ra'' ''2'' True,
      OpenDir ''/proc/sys/net/ipv6/conf'' False,
      LogCantList ''/proc/sys/net/ipv6/conf'' 2]"
  using forEachInterface_visits [where dirname = "''/proc/sys/net/ipv6/conf''"
      and fn = "\<lambda>path iface. emit (Write (path3 path iface ''accept_ra'') ''2'' True)"
      and w = "fake_world (\<lambda>d. Some example_entries) all_writable"]
    forEachInterface_visits [where dirname = "''/proc/sys/net/ipv6/conf''"
      and fn = "\<lambda>path iface. emit (Write (path3 path iface ''accept_ra'') ''2'' True)"
      and w = "fake_world Map.empty all_writable"]
  by (simp add: fake_world_def example_entries_def emit_def isInterfaceName_iff path3_def
      ENOENT_def Let_def)

subsection \<open>Passes over the interfaces\<close>

lemma same_env_refl: "same_env w w"
  by (simp add: same_env_def)

lemma same_env_emit: "same_env w0 w \<Longrightarrow> same_env w0 (emit e w)"
  by (simp add: same_env_def emit_def)

lemma same_env_accepts: "same_env w0 w \<Longrightarrow> accepts w = accepts w0"
  by (simp add: same_env_def accepts_def fun_eq_iff)

lemma forEachInterface_unfold:
  "forEachInterface dirname fn w =
     (let w1 = fn dirname ''default'' w
      in case dirs w1 dirname of
           None \<Rightarrow>
             emit (LogCantList dirname (path_error w1 dirname))
               (emit (OpenDir dirname False) (w1\<lparr>errno := path_error w1 dirname\<rparr>))
         | Some ents \<Rightarrow>
             fold (fn dirname)
               (map d_name
                  (filter (\<lambda>ent. d_type ent = DT_DIR \<and> isInterfaceName (d_name ent)) ents))
               (emit (OpenDir dirname True) w1))"
  by (simp add: forEachInterface_def opendir_def Let_def readdir_loop_fold emit_def
      split: option.splits)

lemma fold_trace:
  assumes step: "\<And>i w. same_env w0 w \<Longrightarrow> trace (fn d i w) = trace w @ ev i \<and> same_env w0 (fn d i w)"
  shows "same_env w0 w \<Longrightarrow>
    trace (fold (fn d) names w) = trace w @ concat (map ev names) \<and>
    same_env w0 (fold (fn d) names w)"
proof (induction names arbitrary: w)
  case Nil
  then show ?case by simp
next
  case (Cons i names)
  from step [OF Cons.prems] have "trace (fn d i w) = trace w @ ev i" and "same_env w0 (fn d i w)"
    by simp_all
  with Cons.IH [of "fn d i w"] show ?case by simp
qed

lemma forEachInterface_trace:
  assumes step: "\<And>i w. same_env w0 w \<Longrightarrow> trace (fn d i w) = trace w @ ev i \<and> same_env w0 (fn d i w)"
    and env: "same_env w0 w"
  shows "trace (forEachInterface d fn w) =
           trace w @ ev ''default'' @ listing_events w0 d @ concat (map ev (real_interfaces w0 d)) \<and>
         same_env w0 (forEachInterface d fn w)"
proof -
  define w1 where "w1 = fn d ''default'' w"
  from step [OF env] have t1: "trace w1 = trace w @ ev ''default''" and e1: "same_env w0 w1"
    by (simp_all add: w1_def)
  from e1 have d1: "dirs w1 = dirs w0" and p1: "path_error w1 = path_error w0"
    by (simp_all add: same_env_def)
  show ?thesis
  proof (cases "dirs w0 d")
    case None
    then show ?thesis
      using t1 e1 d1 p1
      by (simp add: forEachInterface_unfold w1_def [symmetric] listing_events_def
          real_interfaces_def emit_def same_env_def)
  next
    case (Some ents)
    have e2: "same_env w0 (emit (OpenDir d True) w1)"
      using e1 by (rule same_env_emit)
    from fold_trace [where fn = fn and ev = ev and ?w0.0 = w0 and d = d, OF step e2]
    show ?thesis
      using Some t1 d1
      by (simp add: forEachInterface_unfold w1_def [symmetric] listing_events_def
          real_interfaces_def emit_def)
  qed
qed

lemma setOnAllInterfaces_trace:
  assumes "same_env w0 w"
  shows "trace (setOnAllInterfaces d b v w) =
           trace w @ [Write (path3 d ''default'' b) v (accepts w0 (path3 d ''default'' b) v)] @
           listing_events w0 d @
           map (\<lambda>i. Write (path3 d i b) v (accepts w0 (path3 d i b) v)) (real_interfaces w0 d) \<and>
         same_env w0 (setOnAllInterfaces d b v w)"
proof -
  have "trace (setOnAllInterfaces d b v w) =
           trace w @ (\<lambda>i. [Write (path3 d i b) v (accepts w0 (path3 d i b) v)]) ''default'' @
           listing_events w0 d @
           concat (map (\<lambda>i. [Write (path3 d i b) v (accepts w0 (path3 d i b) v)]) (real_interfaces w0 d)) \<and>
         same_env w0 (setOnAllInterfaces d b v w)"
    unfolding setOnAllInterfaces_def
    by (rule forEachInterface_trace)
       (simp_all add: writeValueToPath_trace writeValueToPath_env same_env_accepts assms)
  then show ?thesis by simp
qed

lemma setAcceptIPv6RIO_fn_trace:
  assumes "same_env w0 w"
  shows "trace (setAcceptIPv6RIO_fn mn mx ipv6_proc_path i w) = trace w @ rio_events w0 mn mx i \<and>
         same_env w0 (setAcceptIPv6RIO_fn mn mx ipv6_proc_path i w)"
proof -
  have a: "accepts w = accepts w0" using assms by (rule same_env_accepts)
  have e: "same_env w0 (snd (writeValueToPath ipv6_proc_path i ''accept_ra_rt_info_min_plen'' (to_string mn) w))"
    using assms by (rule writeValueToPath_env)
  have a': "accepts (snd (writeValueToPath ipv6_proc_path i ''accept_ra_rt_info_min_plen'' (to_string mn) w)) = accepts w0"
    using e by (rule same_env_accepts)
  show ?thesis
    using e a a' writeValueToPath_env [OF e]
    by (simp add: setAcceptIPv6RIO_fn_def split_beta writeValueToPath_fst writeValueToPath_trace
        rio_events_def min_plen_path_def max_plen_path_def)
qed

lemma setAcceptIPv6RIO_trace:
  assumes "same_env w0 w"
  shows "trace (setAcceptIPv6RIO mn mx w) =
           trace w @ rio_events w0 mn mx ''default'' @ listing_events w0 ipv6_proc_path @
           concat (map (rio_events w0 mn mx) (real_interfaces w0 ipv6_proc_path)) \<and>
         same_env w0 (setAcceptIPv6RIO mn mx w)"
  unfolding setAcceptIPv6RIO_def
  by (rule forEachInterface_trace) (simp_all add: setAcceptIPv6RIO_fn_trace assms)


subsection \<open>The route-information-option pair\<close>

lemma path3_inject:
  "length b = length b' \<Longrightarrow> path3 d i b = path3 d i' b' \<longleftrightarrow> i = i' \<and> b = b'"
  by (simp add: path3_def)

lemma min_plen_ne_max_plen: "min_plen_path i \<noteq> max_plen_path i'"
  by (simp add: min_plen_path_def max_plen_path_def path3_inject)

lemma max_plen_ne_min_plen: "max_plen_path i \<noteq> min_plen_path i'"
  using min_plen_ne_max_plen [of i' i] by simp

lemma max_plen_path_inject: "max_plen_path i = max_plen_path i' \<longleftrightarrow> i = i'"
  by (simp add: max_plen_path_def path3_inject)

lemma max_guarded_append:
  assumes xs: "max_guarded m xs" and ys: "max_guarded m ys" and hd: "\<not> starts_with_max ys"
  shows "max_guarded m (xs @ ys)"
  unfolding max_guarded_def
proof (intro allI impI, elim conjE)
  fix j iface val ok
  assume j: "j < length (xs @ ys)" and at: "(xs @ ys) ! j = Write (max_plen_path iface) val ok"
  show "0 < j \<and> (xs @ ys) ! (j - 1) = Write (min_plen_path iface) m True"
  proof (cases "j < length xs")
    case True
    with at have "xs ! j = Write (max_plen_path iface) val ok" by (simp add: nth_append)
    with xs True have "0 < j" and "xs ! (j - 1) = Write (min_plen_path iface) m True"
      by (auto simp: max_guarded_def)
    moreover from True have "j - 1 < length xs" by simp
    ultimately show ?thesis by (simp add: nth_append)
  next
    case False
    define k where "k = j - length xs"
    from False j have k: "k < length ys" and jk: "j = length xs + k" by (simp_all add: k_def)
    from at jk have atk: "ys ! k = Write (max_plen_path iface) val ok" by (simp add: nth_append)
    have "k \<noteq> 0"
    proof
      assume "k = 0"
      with k atk have "ys = Write (max_plen_path iface) val ok # tl ys"
        by (cases ys) simp_all
      with hd show False unfolding starts_with_max_def by blast
    qed
    with ys k atk have "ys ! (k - 1) = Write (min_plen_path iface) m True"
      by (auto simp: max_guarded_def)
    moreover from \<open>k \<noteq> 0\<close> jk have "\<not> j - 1 < length xs" and "j - 1 - length xs = k - 1" and "0 < j"
      by simp_all
    ultimately show ?thesis by (simp add: nth_append)
  qed
qed

lemma starts_with_max_append: "xs \<noteq> [] \<Longrightarrow> starts_with_max (xs @ ys) = starts_with_max xs"
  by (cases xs) (simp_all add: starts_with_max_def)

lemma rio_events_guarded:
  "max_guarded (to_string mn) (rio_events w mn mx i) \<and>
   \<not> starts_with_max (rio_events w mn mx i) \<and> rio_events w mn mx i \<noteq> []"
  by (auto simp: max_guarded_def starts_with_max_def rio_events_def min_plen_ne_max_plen
      max_plen_ne_min_plen max_plen_path_inject less_Suc_eq nth_Cons')

lemma listing_events_guarded:
  "max_guarded m (listing_events w d) \<and> \<not> starts_with_max (listing_events w d) \<and>
   listing_events w d \<noteq> []"
  by (auto simp: max_guarded_def starts_with_max_def listing_events_def less_Suc_eq nth_Cons'
      split: option.splits)

lemma concat_rio_events_guarded:
  "max_guarded (to_string mn) (concat (map (rio_events w mn mx) names)) \<and>
   \<not> starts_with_max (concat (map (rio_events w mn mx) names))"
proof (induction names)
  case Nil
  show ?case by (simp add: max_guarded_def starts_with_max_def)
next
  case (Cons i names)
  then show ?case
    using rio_events_guarded [where mn = mn and w = w and mx = mx and i = i]
    by (simp add: max_guarded_append starts_with_max_append)
qed

lemma max_in_rio_events:
  "Write (max_plen_path iface) val ok \<in> set (rio_events w mn mx i) \<Longrightarrow>
     i = iface \<and> accepts w (min_plen_path iface) (to_string mn)"
  by (auto simp: rio_events_def max_plen_ne_min_plen max_plen_path_inject split: if_splits)

text \<open>
  C1: what a pass of \<open>setAcceptIPv6RIO\<close> adds to the trace is, for \<open>default\<close> and
  then for each real interface of the listing, the write of the minimum followed, only
  when that write succeeded, by the write of the maximum; a failed minimum write ends
  the work on that interface alone. So a write to the \<open>max_plen\<close> node of an interface
  is always the event right after a successful write of the minimum to the \<open>min_plen\<close>
  node of the same interface, and an interface whose \<open>min_plen\<close> node does not take
  the minimum sees no write to its \<open>max_plen\<close> node.
\<close>

theorem setAcceptIPv6RIO_ordered:
  "new_events w (setAcceptIPv6RIO mn mx w) =
     rio_events w mn mx ''default'' @ listing_events w ipv6_proc_path @
     concat (map (rio_events w mn mx) (real_interfaces w ipv6_proc_path)) \<and>
   (j < length (new_events w (setAcceptIPv6RIO mn mx w)) \<and>
    new_events w (setAcceptIPv6RIO mn mx w) ! j = Write (max_plen_path iface) val ok \<longrightarrow>
      0 < j \<and>
      new_events w (setAcceptIPv6RIO mn mx w) ! (j - 1) =
        Write (min_plen_path iface) (to_string mn) True) \<and>
   (\<not> accepts w (min_plen_path iface) (to_string mn) \<longrightarrow>
      Write (max_plen_path iface) val ok \<notin> set (new_events w (setAcceptIPv6RIO mn mx w)))"
proof -
  let ?tr = "rio_events w mn mx ''default'' @ listing_events w ipv6_proc_path @
     concat (map (rio_events w mn mx) (real_interfaces w ipv6_proc_path))"
  have eq: "new_events w (setAcceptIPv6RIO mn mx w) = ?tr"
    using setAcceptIPv6RIO_trace [where ?w0.0 = w and w = w and mn = mn and mx = mx, OF same_env_refl] by (simp add: new_events_def)
  have "max_guarded (to_string mn) (listing_events w ipv6_proc_path @
     concat (map (rio_events w mn mx) (real_interfaces w ipv6_proc_path)))"
    using listing_events_guarded concat_rio_events_guarded by (simp add: max_guarded_append)
  moreover have "\<not> starts_with_max (listing_events w ipv6_proc_path @
     concat (map (rio_events w mn mx) (real_interfaces w ipv6_proc_path)))"
    using listing_events_guarded by (simp add: starts_with_max_append)
  ultimately have g: "max_guarded (to_string mn) ?tr"
    using rio_events_guarded by (simp add: max_guarded_append)
  have ordered: "0 < j \<and> ?tr ! (j - 1) = Write (min_plen_path iface) (to_string mn) True"
    if "j < length ?tr \<and> ?tr ! j = Write (max_plen_path iface) val ok"
    using g that unfolding max_guarded_def by blast
  have skipped: "Write (max_plen_path iface) val ok \<notin> set ?tr"
    if "\<not> accepts w (min_plen_path iface) (to_string mn)"
  proof
    assume "Write (max_plen_path iface) val ok \<in> set ?tr"
    then consider "Write (max_plen_path iface) val ok \<in> set (rio_events w mn mx ''default'')"
      | "Write (max_plen_path iface) val ok \<in> set (listing_events w ipv6_proc_path)"
      | i where "Write (max_plen_path iface) val ok \<in> set (rio_events w mn mx i)"
      by auto
    then show False
    proof cases
      case 1
      with that show False by (auto dest: max_in_rio_events)
    next
      case 2
      then show False by (auto simp: listing_events_def split: option.splits)
    next
      case 3
      with that show False by (auto dest: max_in_rio_events)
    qed
  qed
  from eq ordered skipped show ?thesis by simp
qed


theorem setAcceptIPv6RIO_ordered_witness:
  "new_events eth0_min_unwritable (setAcceptIPv6RIO 48 64 eth0_min_unwritable) =
     [Write ''/proc/sys/net/ipv6/conf/default/accept_ra_rt_info_min_plen'' ''48'' True,
      Write ''/proc/sys/net/ipv6/conf/default/accept_ra_rt_info_max_plen'' ''64'' True,
      OpenDir ''/proc/sys/net/ipv6/conf'' True,
      Write ''/proc/sys/net/ipv6/conf/eth0/accept_ra_rt_info_min_plen'' ''48'' False,
      Write ''/proc/sys/net/ipv6/conf/wlan0/accept_ra_rt_info_min_plen'' ''48'' True,
      Write ''/proc/sys/net/ipv6/conf/wlan0/accept_ra_rt_info_max_plen'' ''64'' True] \<and>
   new_events eth0_min_unwritable (setAcceptIPv6RIO 48 64 eth0_min_unwritable) ! 5 =
     Write (max_plen_path ''wlan0'') ''64'' True \<and>
   new_events eth0_min_unwritable (setAcceptIPv6RIO 48 64 eth0_min_unwritable) ! 4 =
     Write (min_plen_path ''wlan0'') ''48'' True \<and>
   \<not> accepts eth0_min_unwritable (min_plen_path ''eth0'') ''48'' \<and>
   Write (max_plen_path ''eth0'') ''64'' True
     \<notin> set (new_events eth0_min_unwritable (setAcceptIPv6RIO 48 64 eth0_min_unwritable))"
  using setAcceptIPv6RIO_ordered [where w = eth0_min_unwritable and mn = 48 and mx = 64
      and j = 5 and iface = "''wlan0''" and val = "''64''" and ok = True]
    setAcceptIPv6RIO_ordered [where w = eth0_min_unwritable and mn = 48 and mx = 64
      and j = 1 and iface = "''eth0''" and val = "''64''" and ok = True]
  by (simp add: eth0_min_unwritable_def fake_world_def example_entries_def unwritable_def
      rio_events_def listing_events_def real_interfaces_def accepts_def isInterfaceName_iff
      min_plen_path_def max_plen_path_def path3_def ipv6_proc_path_def to_string_def
      dec_nat_eval)

subsection \<open>Initialisation\<close>

lemma writes_of_append: "writes_of (xs @ ys) = writes_of xs @ writes_of ys"
  by (induction xs rule: writes_of.induct) simp_all

lemma writes_of_listing_events: "writes_of (listing_events w d) = []"
  by (simp add: listing_events_def split: option.splits)

lemma extends_refl: "extends w w"
  by (simp add: extends_def same_env_refl)

lemma extends_step:
  assumes ext: "extends w0 w" and tr: "trace w' = trace w @ fs" and env: "same_env w0 w'"
  shows "extends w0 w' \<and>
         writes_of (new_events w0 w') = writes_of (new_events w0 w) @ writes_of fs"
proof -
  from ext have tk: "take (length (trace w0)) (trace w) = trace w0"
    by (simp add: extends_def)
  have le: "length (trace w0) \<le> length (trace w)"
  proof -
    have "length (take (length (trace w0)) (trace w)) = length (trace w0)"
      by (simp only: tk)
    then show ?thesis by simp
  qed
  from le tk tr have "take (length (trace w0)) (trace w') = trace w0" by simp
  moreover from le tr have "new_events w0 w' = new_events w0 w @ fs"
    by (simp add: new_events_def)
  ultimately show ?thesis using env by (simp add: extends_def writes_of_append)
qed

lemma setOnAllInterfaces_default_only:
  assumes "extends w0 w" and "real_interfaces w0 d = []"
  shows "extends w0 (setOnAllInterfaces d b v w) \<and>
         writes_of (new_events w0 (setOnAllInterfaces d b v w)) =
           writes_of (new_events w0 w) @ [(path3 d ''default'' b, v)]"
proof -
  from assms(1) have env: "same_env w0 w" by (simp add: extends_def)
  from setOnAllInterfaces_trace [OF env, of d b v] assms(2)
  have "trace (setOnAllInterfaces d b v w) =
          trace w @ Write (path3 d ''default'' b) v (accepts w0 (path3 d ''default'' b) v) #
          listing_events w0 d"
    and "same_env w0 (setOnAllInterfaces d b v w)"
    by simp_all
  from extends_step [OF assms(1) this] show ?thesis
    by (simp add: writes_of_listing_events)
qed

lemma setAcceptIPv6RIO_default_only:
  assumes "extends w0 w" and "real_interfaces w0 ipv6_proc_path = []"
  shows "extends w0 (setAcceptIPv6RIO mn mx w) \<and>
         writes_of (new_events w0 (setAcceptIPv6RIO mn mx w)) =
           writes_of (new_events w0 w) @ writes_of (rio_events w0 mn mx ''default'')"
proof -
  from assms(1) have env: "same_env w0 w" by (simp add: extends_def)
  from setAcceptIPv6RIO_trace [OF env, of mn mx] assms(2)
  have "trace (setAcceptIPv6RIO mn mx w) =
          trace w @ rio_events w0 mn mx ''default'' @ listing_events w0 ipv6_proc_path"
    and "same_env w0 (setAcceptIPv6RIO mn mx w)"
    by simp_all
  from extends_step [OF assms(1) this] show ?thesis
    by (simp add: writes_of_append writes_of_listing_events)
qed

lemma to_string_negative_offset:
  "0 < off \<Longrightarrow> off \<le> 2147483647 \<Longrightarrow> to_string (int32 (- off)) = CHR ''-'' # dec_nat (nat off)"
  by (simp add: to_string_def int32_def)

lemma base_reachable_time_value:
  "dec_nat (unat (word_of_int (int32 15000) :: 32 word)) = ''15000''"
  by (simp add: int32_def dec_nat_eval)

lemma rio_default_writes:
  "writes_of (rio_events w kRouteInfoMinPrefixLen kRouteInfoMaxPrefixLen ''default'') =
     (''/proc/sys/net/ipv6/conf/default/accept_ra_rt_info_min_plen'', ''48'') #
     (if accepts w ''/proc/sys/net/ipv6/conf/default/accept_ra_rt_info_min_plen'' ''48''
      then [(''/proc/sys/net/ipv6/conf/default/accept_ra_rt_info_max_plen'', ''64'')] else [])"
  by (simp add: rio_events_def min_plen_path_def max_plen_path_def path3_def ipv6_proc_path_def
      to_string_def kRouteInfoMinPrefixLen_def kRouteInfoMaxPrefixLen_def dec_nat_eval)

lemma initializeAll_writes:
  assumes "real_interfaces w ipv6_proc_path = []"
    and "real_interfaces w ipv4_neigh_conf_dir = []"
    and "real_interfaces w ipv6_neigh_conf_dir = []"
    and "0 < off" and "off \<le> 2147483647"
  shows "writes_of (new_events w (initializeAll off w)) =
     [(''/proc/sys/net/ipv6/conf/default/accept_ra'', ''2''),
      (''/proc/sys/net/ipv6/conf/default/accept_ra_rt_info_min_plen'', ''48'')] @
     (if accepts w ''/proc/sys/net/ipv6/conf/default/accept_ra_rt_info_min_plen'' ''48''
      then [(''/proc/sys/net/ipv6/conf/default/accept_ra_rt_info_max_plen'', ''64'')] else []) @
     [(''/proc/sys/net/ipv6/conf/default/accept_ra_rt_table'', CHR ''-'' # dec_nat (nat off)),
      (''/proc/sys/net/ipv6/conf/default/optimistic_dad'', ''1''),
      (''/proc/sys/net/ipv6/conf/default/use_optimistic'', ''1''),
      (''/proc/sys/net/ipv4/neigh/default/base_reachable_time_ms'', ''15000''),
      (''/proc/sys/net/ipv6/neigh/default/base_reachable_time_ms'', ''15000''),
      (''/proc/sys/net/ipv6/conf/default/use_oif_addrs_only'', ''1'')]"
proof -
  define w1 where "w1 = setOnAllInterfaces ipv6_proc_path ''accept_ra'' ''2'' w"
  define w2 where "w2 = setAcceptIPv6RIO kRouteInfoMinPrefixLen kRouteInfoMaxPrefixLen w1"
  define w3 where "w3 = setOnAllInterfaces ipv6_proc_path ''accept_ra_rt_table''
                          (to_string (int32 (- off))) w2"
  define w4a where "w4a = setOnAllInterfaces ipv6_proc_path ''optimistic_dad'' ''1'' w3"
  define w4 where "w4 = setOnAllInterfaces ipv6_proc_path ''use_optimistic'' ''1'' w4a"
  define w5a where "w5a = setOnAllInterfaces ipv4_neigh_conf_dir ''base_reachable_time_ms'' ''15000'' w4"
  define w5 where "w5 = setOnAllInterfaces ipv6_neigh_conf_dir ''base_reachable_time_ms'' ''15000'' w5a"
  define w6 where "w6 = setOnAllInterfaces ipv6_proc_path ''use_oif_addrs_only'' ''1'' w5"
  have init: "initializeAll off w = w6"
    by (simp add: initializeAll_def Let_def setAcceptRA_def setAcceptRARouteTable_def
        setIPv6OptimisticMode_def setBaseReachableTimeMs_def
        setIPv6UseOutgoingInterfaceAddrsOnly_def base_reachable_time_value
        w1_def w2_def w3_def w4a_def w4_def w5a_def w5_def w6_def)
  have n0: "writes_of (new_events w w) = []"
    by (simp add: new_events_def)
  have s1: "extends w w1 \<and> writes_of (new_events w w1) =
      writes_of (new_events w w) @ [(path3 ipv6_proc_path ''default'' ''accept_ra'', ''2'')]"
    unfolding w1_def using extends_refl assms(1) by (rule setOnAllInterfaces_default_only)
  have s2: "extends w w2 \<and> writes_of (new_events w w2) =
      writes_of (new_events w w1) @
      writes_of (rio_events w kRouteInfoMinPrefixLen kRouteInfoMaxPrefixLen ''default'')"
    unfolding w2_def using s1 [THEN conjunct1] assms(1) by (rule setAcceptIPv6RIO_default_only)
  have s3: "extends w w3 \<and> writes_of (new_events w w3) =
      writes_of (new_events w w2) @
      [(path3 ipv6_proc_path ''default'' ''accept_ra_rt_table'', to_string (int32 (- off)))]"
    unfolding w3_def using s2 [THEN conjunct1] assms(1) by (rule setOnAllInterfaces_default_only)
  have s4a: "extends w w4a \<and> writes_of (new_events w w4a) =
      writes_of (new_events w w3) @ [(path3 ipv6_proc_path ''default'' ''optimistic_dad'', ''1'')]"
    unfolding w4a_def using s3 [THEN conjunct1] assms(1) by (rule setOnAllInterfaces_default_only)
  have s4: "extends w w4 \<and> writes_of (new_events w w4) =
      writes_of (new_events w w4a) @ [(path3 ipv6_proc_path ''default'' ''use_optimistic'', ''1'')]"
    unfolding w4_def using s4a [THEN conjunct1] assms(1) by (rule setOnAllInterfaces_default_only)
  have s5a: "extends w w5a \<and> writes_of (new_events w w5a) =
      writes_of (new_events w w4) @
      [(path3 ipv4_neigh_conf_dir ''default'' ''base_reachable_time_ms'', ''15000'')]"
    unfolding w5a_def using s4 [THEN conjunct1] assms(2) by (rule setOnAllInterfaces_default_only)
  have s5: "extends w w5 \<and> writes_of (new_events w w5) =
      writes_of (new_events w w5a) @
      [(path3 ipv6_neigh_conf_dir ''default'' ''base_reachable_time_ms'', ''15000'')]"
    unfolding w5_def using s5a [THEN conjunct1] assms(3) by (rule setOnAllInterfaces_default_only)
  have s6: "extends w w6 \<and> writes_of (new_events w w6) =
      writes_of (new_events w w5) @
      [(path3 ipv6_proc_path ''default'' ''use_oif_addrs_only'', ''1'')]"
    unfolding w6_def using s5 [THEN conjunct1] assms(1) by (rule setOnAllInterfaces_default_only)
  have paths:
    "path3 ipv6_proc_path ''default'' ''accept_ra'' = ''/proc/sys/net/ipv6/conf/default/accept_ra''"
    "path3 ipv6_proc_path ''default'' ''accept_ra_rt_table'' =
       ''/proc/sys/net/ipv6/conf/default/accept_ra_rt_table''"
    "path3 ipv6_proc_path ''default'' ''optimistic_dad'' =
       ''/proc/sys/net/ipv6/conf/default/optimistic_dad''"
    "path3 ipv6_proc_path ''default'' ''use_optimistic'' =
       ''/proc/sys/net/ipv6/conf/default/use_optimistic''"
    "path3 ipv4_neigh_conf_dir ''default'' ''base_reachable_time_ms'' =
       ''/proc/sys/net/ipv4/neigh/default/base_reachable_time_ms''"
    "path3 ipv6_neigh_conf_dir ''default'' ''base_reachable_time_ms'' =
       ''/proc/sys/net/ipv6/neigh/default/base_reachable_time_ms''"
    "path3 ipv6_proc_path ''default'' ''use_oif_addrs_only'' =
       ''/proc/sys/net/ipv6/conf/default/use_oif_addrs_only''"
    by (simp_all add: path3_def ipv6_proc_path_def ipv4_neigh_conf_dir_def ipv6_neigh_conf_dir_def)
  have "writes_of (new_events w w6) =
      (''/proc/sys/net/ipv6/conf/default/accept_ra'', ''2'') #
      writes_of (rio_events w kRouteInfoMinPrefixLen kRouteInfoMaxPrefixLen ''default'') @
      [(''/proc/sys/net/ipv6/conf/default/accept_ra_rt_table'', CHR ''-'' # dec_nat (nat off)),
       (''/proc/sys/net/ipv6/conf/default/optimistic_dad'', ''1''),
       (''/proc/sys/net/ipv6/conf/default/use_optimistic'', ''1''),
       (''/proc/sys/net/ipv4/neigh/default/base_reachable_time_ms'', ''15000''),
       (''/proc/sys/net/ipv6/neigh/default/base_reachable_time_ms'', ''15000''),
       (''/proc/sys/net/ipv6/conf/default/use_oif_addrs_only'', ''1'')]"
    using s1 s2 s3 s4a s4 s5a s5 s6
    by (simp only: n0 paths to_string_negative_offset [OF assms(4,5)] append_Nil append_Cons
        append_assoc)
  then show ?thesis
    by (simp only: init rio_default_writes append_Cons append_Nil split: if_split)
qed


text \<open>
  C5, as the code has it: on a file system with no real interface in the three
  directories, and with the positive offset \<open>off\<close> of the route table, the writes
  \<open>initializeAll\<close> attempts are, in this order and all under \<open>default\<close>:
  \<open>accept_ra\<close> = 2, \<open>accept_ra_rt_info_min_plen\<close> = 48, then
  \<open>accept_ra_rt_info_max_plen\<close> = 64 when the write of the minimum succeeded,
  \<open>accept_ra_rt_table\<close> = the offset negated, \<open>optimistic_dad\<close> = 1,
  \<open>use_optimistic\<close> = 1, \<open>base_reachable_time_ms\<close> = 15000 in the ipv4 and the ipv6
  neighbour trees, and \<open>use_oif_addrs_only\<close> = 1.
\<close>

theorem initializeAll_default_only:
  assumes "real_interfaces w ipv6_proc_path = []"
    and "real_interfaces w ipv4_neigh_conf_dir = []"
    and "real_interfaces w ipv6_neigh_conf_dir = []"
    and "0 < off" and "off \<le> 2147483647"
  shows "writes_of (new_events w (initializeAll off w)) =
     [(''/proc/sys/net/ipv6/conf/default/accept_ra'', ''2''),
      (''/proc/sys/net/ipv6/conf/default/accept_ra_rt_info_min_plen'', ''48'')] @
     (if accepts w ''/proc/sys/net/ipv6/conf/default/accept_ra_rt_info_min_plen'' ''48''
      then [(''/proc/sys/net/ipv6/conf/default/accept_ra_rt_info_max_plen'', ''64'')] else []) @
     [(''/proc/sys/net/ipv6/conf/default/accept_ra_rt_table'', CHR ''-'' # dec_nat (nat off)),
      (''/proc/sys/net/ipv6/conf/default/optimistic_dad'', ''1''),
      (''/proc/sys/net/ipv6/conf/default/use_optimistic'', ''1''),
      (''/proc/sys/net/ipv4/neigh/default/base_reachable_time_ms'', ''15000''),
      (''/proc/sys/net/ipv6/neigh/default/base_reachable_time_ms'', ''15000''),
      (''/proc/sys/net/ipv6/conf/default/use_oif_addrs_only'', ''1'')]"
  using assms by (rule initializeAll_writes)

lemma no_real_interfaces_examples:
  "real_interfaces no_interfaces d = []" "real_interfaces no_interfaces_min_unwritable d = []"
  by (simp_all add: real_interfaces_def no_interfaces_def no_interfaces_min_unwritable_def
      fake_world_def bare_entries_def isInterfaceName_iff)

theorem initializeAll_default_only_witness:
  "real_interfaces no_interfaces ipv6_proc_path = [] \<and>
   real_interfaces no_interfaces ipv4_neigh_conf_dir = [] \<and>
   real_interfaces no_interfaces ipv6_neigh_conf_dir = [] \<and>
   writes_of (new_events no_interfaces (initializeAll 1000 no_interfaces)) =
     [(''/proc/sys/net/ipv6/conf/default/accept_ra'', ''2''),
      (''/proc/sys/net/ipv6/conf/default/accept_ra_rt_info_min_plen'', ''48''),
      (''/proc/sys/net/ipv6/conf/default/accept_ra_rt_info_max_plen'', ''64''),
      (''/proc/sys/net/ipv6/conf/default/accept_ra_rt_table'', ''-1000''),
      (''/proc/sys/net/ipv6/conf/default/optimistic_dad'', ''1''),
      (''/proc/sys/net/ipv6/conf/default/use_optimistic'', ''1''),
      (''/proc/sys/net/ipv4/neigh/default/base_reachable_time_ms'', ''15000''),
      (''/proc/sys/net/ipv6/neigh/default/base_reachable_time_ms'', ''15000''),
      (''/proc/sys/net/ipv6/conf/default/use_oif_addrs_only'', ''1'')]"
proof -
  have pos: "(0::int) < 1000" and le: "(1000::int) \<le> 2147483647" by simp_all
  have acc: "accepts no_interfaces ''/proc/sys/net/ipv6/conf/default/accept_ra_rt_info_min_plen'' ''48''"
    by (simp add: accepts_def no_interfaces_def fake_world_def all_writable_def)
  have dec: "dec_nat 1000 = ''1000''" by (simp add: dec_nat_eval)
  from initializeAll_default_only [OF no_real_interfaces_examples(1)
      no_real_interfaces_examples(1) no_real_interfaces_examples(1) pos le]
  show ?thesis by (simp add: acc dec no_real_interfaces_examples)
qed

text \<open>
  C5 as stated fails where the \<open>min_plen\<close> node of \<open>default\<close> takes no value (a
  kernel without the route-information option): the write of 64 to \<open>max_plen\<close> is not
  among the writes.
\<close>

theorem initializeAll_max_plen_counterexample:
  "real_interfaces no_interfaces_min_unwritable ipv6_proc_path = [] \<and>
   real_interfaces no_interfaces_min_unwritable ipv4_neigh_conf_dir = [] \<and>
   real_interfaces no_interfaces_min_unwritable ipv6_neigh_conf_dir = [] \<and>
   writes_of (new_events no_interfaces_min_unwritable
                (initializeAll 1000 no_interfaces_min_unwritable)) =
     [(''/proc/sys/net/ipv6/conf/default/accept_ra'', ''2''),
      (''/proc/sys/net/ipv6/conf/default/accept_ra_rt_info_min_plen'', ''48''),
      (''/proc/sys/net/ipv6/conf/default/accept_ra_rt_table'', ''-1000''),
      (''/proc/sys/net/ipv6/conf/default/optimistic_dad'', ''1''),
      (''/proc/sys/net/ipv6/conf/default/use_optimistic'', ''1''),
      (''/proc/sys/net/ipv4/neigh/default/base_reachable_time_ms'', ''15000''),
      (''/proc/sys/net/ipv6/neigh/default/base_reachable_time_ms'', ''15000''),
      (''/proc/sys/net/ipv6/conf/default/use_oif_addrs_only'', ''1'')]"
proof -
  have pos: "(0::int) < 1000" and le: "(1000::int) \<le> 2147483647" by simp_all
  have acc: "\<not> accepts no_interfaces_min_unwritable
      ''/proc/sys/net/ipv6/conf/default/accept_ra_rt_info_min_plen'' ''48''"
    by (simp add: accepts_def no_interfaces_min_unwritable_def fake_world_def unwritable_def)
  have dec: "dec_nat 1000 = ''1000''" by (simp add: dec_nat_eval)
  from initializeAll_writes [OF no_real_interfaces_examples(2)
      no_real_interfaces_examples(2) no_real_interfaces_examples(2) pos le]
  show ?thesis by (simp add: acc dec no_real_interfaces_examples)
qed

end
